theory Spec2Isabelle
  imports Complex_Main "HOL-Library.Sublist" "HOL-Library.Word"
begin

section \<open>Python values used by the service\<close>

text \<open>
  The service is Python: a Flask application (\<^verbatim>\<open>src/api/api.py\<close>) around a pretrained
  multimodal model, and a Streamlit front-end (\<^verbatim>\<open>src/app.py\<close>). Strings are lists of
  characters, byte strings are lists of 8-bit words. Every exception the code raises or
  lets through is a value; all of them are subclasses of Python's \<^verbatim>\<open>Exception\<close>, which
  is what the handlers of the source catch.
\<close>

type_synonym bytes = "8 word list"

datatype py_exception =
    FileNotFoundError string
  | Exception string
  | IndexError string
  | KeyError string
  | ValueError string
  | TypeError string
  | AttributeError string
  | Raised string string
    \<comment> \<open>an error raised inside a library: its class name and its message\<close>

text \<open>\<^verbatim>\<open>str(e)\<close>: the message; a \<^verbatim>\<open>KeyError\<close> prints the quoted key.\<close>

fun str_exc :: "py_exception \<Rightarrow> string" where
  "str_exc (FileNotFoundError m) = m"
| "str_exc (Exception m) = m"
| "str_exc (IndexError m) = m"
| "str_exc (KeyError k) = [CHR 0x27] @ k @ [CHR 0x27]"
| "str_exc (ValueError m) = m"
| "str_exc (TypeError m) = m"
| "str_exc (AttributeError m) = m"
| "str_exc (Raised c m) = m"

text \<open>A text between single quotes, as Python's messages show names.\<close>

definition quoted :: "string \<Rightarrow> string" where
  "quoted s = [CHR 0x27] @ s @ [CHR 0x27]"

text \<open>\<^verbatim>\<open>sub in s\<close> for strings: \<open>sub\<close> occurs in \<open>s\<close>.\<close>

fun py_in :: "string \<Rightarrow> string \<Rightarrow> bool" where
  "py_in sub [] = (sub = [])"
| "py_in sub (c # cs) = (prefix sub (c # cs) \<or> py_in sub cs)"

text \<open>\<^verbatim>\<open>x or d\<close> for an optional string: \<^verbatim>\<open>None\<close> and \<^verbatim>\<open>""\<close> are falsy.\<close>

definition py_or :: "string option \<Rightarrow> string \<Rightarrow> string" where
  "py_or x d = (case x of None \<Rightarrow> d | Some s \<Rightarrow> if s = [] then d else s)"

text \<open>\<^verbatim>\<open>str(n)\<close> for an integer, as an f-string formats it.\<close>

fun str_nat :: "nat \<Rightarrow> string" where
  "str_nat n =
     (if n < 10 then [char_of (48 + n)]
      else str_nat (n div 10) @ [char_of (48 + n mod 10)])"

definition str_int :: "int \<Rightarrow> string" where
  "str_int i = (if i < 0 then CHR ''-'' # str_nat (nat (- i)) else str_nat (nat i))"

text \<open>\<^verbatim>\<open>s.lstrip("/")\<close>: all leading slashes go.\<close>

definition lstrip_slash :: "string \<Rightarrow> string" where
  "lstrip_slash s = dropWhile (\<lambda>c. c = CHR ''/'') s"

section \<open>The model object\<close>

text \<open>
  A two-dimensional integer tensor with its shape; \<^verbatim>\<open>t[:, n:]\<close> drops the first
  \<open>n\<close> columns of every row.
\<close>

record tensor =
  shape0 :: nat
  shape1 :: nat
  rows :: "int list list"

definition slice_cols :: "tensor \<Rightarrow> nat \<Rightarrow> tensor" where
  "slice_cols t n = \<lparr>shape0 = shape0 t, shape1 = shape1 t - n, rows = map (drop n) (rows t)\<rparr>"

type_synonym image = "nat list"
type_synonym audio = "int list"

datatype media = Images image | Audios "(audio \<times> nat) list"

record inputs =
  input_ids :: tensor
  features :: "nat list"

text \<open>
  \<^verbatim>\<open>Phi4Model.__init__\<close> loads the processor and the model from the pretrained
  checkpoint and fixes the three control tokens. The processor, the generator and the
  decoder are capabilities of the model runtime: they are taken as they come, each
  either returning or raising.
\<close>

record Phi4Model =
  processor :: "string \<Rightarrow> media \<Rightarrow> py_exception + inputs"
  model_generate :: "inputs \<Rightarrow> nat \<Rightarrow> py_exception + tensor"
  batch_decode :: "tensor \<Rightarrow> bool \<Rightarrow> bool \<Rightarrow> py_exception + string list"
  user_prompt :: string
  assistant_prompt :: string
  prompt_suffix :: string

definition Phi4Model_init ::
  "(string \<Rightarrow> media \<Rightarrow> py_exception + inputs) \<Rightarrow> (inputs \<Rightarrow> nat \<Rightarrow> py_exception + tensor) \<Rightarrow>
   (tensor \<Rightarrow> bool \<Rightarrow> bool \<Rightarrow> py_exception + string list) \<Rightarrow> Phi4Model" where
  "Phi4Model_init proc gen dec =
     \<lparr>processor = proc, model_generate = gen, batch_decode = dec,
      user_prompt = ''<|user|>'', assistant_prompt = ''<|assistant|>'',
      prompt_suffix = ''<|end|>''\<rparr>"

text \<open>The prompt of \<^verbatim>\<open>process_image\<close> (the f-string of its first statement).\<close>

definition image_prompt :: "Phi4Model \<Rightarrow> string option \<Rightarrow> string" where
  "image_prompt self custom_prompt =
     user_prompt self @ ''<|image_1|>'' @ py_or custom_prompt ''What is shown in this image?''
       @ prompt_suffix self @ assistant_prompt self"

definition default_prompt :: string where
  "default_prompt = ''Transcribe the audio to text, and then translate the audio to French. Use <sep> as a separator between the original transcript and the translation.''"

text \<open>The prompt of \<^verbatim>\<open>process_audio\<close>.\<close>

definition audio_prompt :: "Phi4Model \<Rightarrow> string option \<Rightarrow> string" where
  "audio_prompt self custom_prompt =
     user_prompt self @ ''<|audio_1|>'' @ py_or custom_prompt default_prompt
       @ prompt_suffix self @ assistant_prompt self"

section \<open>Effects\<close>

text \<open>
  What a request does to the outside is kept in a \<open>world\<close>: the file descriptors that
  are open, the next free descriptor, and the calls made so far to the file system, the
  HTTP client, the codecs and the model runtime. A statement of the program takes the
  world and returns a value or an exception together with the new world.
\<close>

datatype event =
    Ev_open string
  | Ev_close nat
  | Ev_requests_get string bool "(string \<times> string) list"
  | Ev_Image_open
  | Ev_sf_read
  | Ev_processor string
  | Ev_generate nat
  | Ev_batch_decode bool bool
  | Ev_finalize nat
    \<comment> \<open>the interpreter reclaimed a file object and closed its descriptor\<close>

record world =
  open_files :: "nat list"
  next_fd :: nat
  calls :: "event list"

type_synonym 'a io = "world \<Rightarrow> (py_exception + 'a) \<times> world"

definition return_io :: "'a \<Rightarrow> 'a io" where
  "return_io x w = (Inr x, w)"

definition raise_io :: "py_exception \<Rightarrow> 'a io" where
  "raise_io e w = (Inl e, w)"

definition lift_io :: "py_exception + 'a \<Rightarrow> 'a io" where
  "lift_io r w = (r, w)"

definition bind_io :: "'a io \<Rightarrow> ('a \<Rightarrow> 'b io) \<Rightarrow> 'b io" where
  "bind_io m f w = (case m w of (Inl e, w') \<Rightarrow> (Inl e, w') | (Inr x, w') \<Rightarrow> f x w')"

text \<open>\<^verbatim>\<open>try: m except Exception as e: h(e)\<close>\<close>

definition try_except :: "'a io \<Rightarrow> (py_exception \<Rightarrow> 'a io) \<Rightarrow> 'a io" where
  "try_except m h w = (case m w of (Inl e, w') \<Rightarrow> h e w' | (Inr x, w') \<Rightarrow> (Inr x, w'))"

text \<open>A call of a library: it is recorded, and returns or raises as the library did.\<close>

definition call_io :: "event \<Rightarrow> py_exception + 'a \<Rightarrow> 'a io" where
  "call_io ev r w = (r, w\<lparr>calls := calls w @ [ev]\<rparr>)"

section \<open>The libraries around the model\<close>

record parsed_url =
  scheme :: string
  path :: string

record response =
  status_code :: int
  reason :: string
  content_type :: "string option"
  content :: "py_exception + bytes"
    \<comment> \<open>the body is read when \<^verbatim>\<open>.content\<close> is first used, which may fail\<close>

text \<open>
  \<^verbatim>\<open>urllib.parse.urlparse\<close>, \<^verbatim>\<open>os.path\<close>, the builtin \<^verbatim>\<open>open\<close>,
  \<^verbatim>\<open>requests.get\<close>, \<^verbatim>\<open>PIL.Image.open\<close> and \<^verbatim>\<open>soundfile.read\<close> are not part of
  the repository: the program is verified for every behaviour of theirs.
\<close>

record env =
  urlparse :: "string \<Rightarrow> py_exception + parsed_url"
  os_path_abspath :: "string \<Rightarrow> string"
  os_path_exists :: "string \<Rightarrow> bool"
  open_rb :: "string \<Rightarrow> py_exception + bytes"
  requests_get :: "string \<Rightarrow> bool \<Rightarrow> (string \<times> string) list \<Rightarrow> py_exception + response"
  Image_open :: "bytes \<Rightarrow> py_exception + image"
  sf_read :: "bytes \<Rightarrow> py_exception + (audio \<times> nat)"

text \<open>
  What \<^verbatim>\<open>load_file\<close> returns: the file opened for reading in binary mode, which holds
  a descriptor, or an \<^verbatim>\<open>io.BytesIO\<close> over bytes in memory.
\<close>

datatype file_obj = LocalFile nat bytes | BytesIO bytes

fun file_bytes :: "file_obj \<Rightarrow> bytes" where
  "file_bytes (LocalFile fd b) = b"
| "file_bytes (BytesIO b) = b"

text \<open>\<^verbatim>\<open>open(abs_path, "rb")\<close>\<close>

definition py_open :: "env \<Rightarrow> string \<Rightarrow> file_obj io" where
  "py_open env p w =
     (case open_rb env p of
        Inl e \<Rightarrow> (Inl e, w\<lparr>calls := calls w @ [Ev_open p]\<rparr>)
      | Inr b \<Rightarrow> (Inr (LocalFile (next_fd w) b),
                  w\<lparr>open_files := next_fd w # open_files w, next_fd := Suc (next_fd w),
                    calls := calls w @ [Ev_open p]\<rparr>))"

text \<open>\<^verbatim>\<open>file_obj.close()\<close>\<close>

fun close :: "file_obj \<Rightarrow> unit io" where
  "close (LocalFile fd b) w =
     (Inr (), w\<lparr>open_files := removeAll fd (open_files w), calls := calls w @ [Ev_close fd]\<rparr>)"
| "close (BytesIO b) w = (Inr (), w)"

definition headers :: "(string \<times> string) list" where
  "headers = [(''User-Agent'', ''Mozilla/5.0 (Windows NT 10.0; Win64; x64) AppleWebKit/537.36 (KHTML, like Gecko) Chrome/91.0.4472.124 Safari/537.36'')]"

text \<open>\<^verbatim>\<open>Phi4Model.load_file\<close>\<close>

definition Phi4Model_load_file :: "env \<Rightarrow> string \<Rightarrow> file_obj io" where
  "Phi4Model_load_file env url =
     bind_io (lift_io (urlparse env url)) (\<lambda>parsed.
       if scheme parsed \<in> set ['''', ''file''] then
         (let p = (if scheme parsed = ''file'' then lstrip_slash (path parsed) else url);
              abs_path = os_path_abspath env p
          in if \<not> os_path_exists env abs_path
             then raise_io (FileNotFoundError (''Local file not found: '' @ abs_path))
             else py_open env abs_path)
       else
         bind_io (call_io (Ev_requests_get url True headers) (requests_get env url True headers))
           (\<lambda>resp.
             if status_code resp \<noteq> 200
             then raise_io (Exception (''Failed to fetch remote file: HTTP ''
                    @ str_int (status_code resp) @ '' - '' @ reason resp))
             else bind_io (lift_io (content resp)) (\<lambda>body. return_io (BytesIO body))))"

text \<open>\<^verbatim>\<open>xs[0]\<close>\<close>

definition index0 :: "'a list \<Rightarrow> py_exception + 'a" where
  "index0 xs = (case xs of [] \<Rightarrow> Inl (IndexError ''list index out of range'') | x # _ \<Rightarrow> Inr x)"

text \<open>The statements of \<^verbatim>\<open>Phi4Model.process_image\<close> inside its \<^verbatim>\<open>try\<close>.\<close>

definition process_image_try :: "env \<Rightarrow> Phi4Model \<Rightarrow> string \<Rightarrow> string option \<Rightarrow> string io" where
  "process_image_try env self image_url custom_prompt =
     (let prompt = image_prompt self custom_prompt in
      bind_io (Phi4Model_load_file env image_url) (\<lambda>file_obj.
      bind_io (call_io Ev_Image_open (Image_open env (file_bytes file_obj))) (\<lambda>image.
      bind_io (call_io (Ev_processor prompt) (processor self prompt (Images image))) (\<lambda>inputs.
      bind_io (call_io (Ev_generate 1000) (model_generate self inputs 1000)) (\<lambda>generate_ids.
      (let generate_ids = slice_cols generate_ids (shape1 (input_ids inputs)) in
       bind_io (call_io (Ev_batch_decode True False) (batch_decode self generate_ids True False))
         (\<lambda>texts.
       bind_io (lift_io (index0 texts)) (\<lambda>response.
       bind_io (close file_obj) (\<lambda>_.
       return_io response)))))))))"

text \<open>\<^verbatim>\<open>Phi4Model.process_image\<close>\<close>

definition Phi4Model_process_image ::
  "env \<Rightarrow> Phi4Model \<Rightarrow> string \<Rightarrow> string option \<Rightarrow> string io" where
  "Phi4Model_process_image env self image_url custom_prompt =
     try_except (process_image_try env self image_url custom_prompt)
       (\<lambda>e. raise_io (Exception (''Error processing image: '' @ str_exc e)))"

text \<open>The statements of \<^verbatim>\<open>Phi4Model.process_audio\<close> inside its \<^verbatim>\<open>try\<close>.\<close>

definition process_audio_try :: "env \<Rightarrow> Phi4Model \<Rightarrow> string \<Rightarrow> string option \<Rightarrow> string io" where
  "process_audio_try env self audio_url custom_prompt =
     (let prompt = audio_prompt self custom_prompt in
      bind_io (Phi4Model_load_file env audio_url) (\<lambda>file_obj.
      bind_io (call_io Ev_sf_read (sf_read env (file_bytes file_obj))) (\<lambda>(audio, samplerate).
      bind_io (call_io (Ev_processor prompt) (processor self prompt (Audios [(audio, samplerate)])))
        (\<lambda>inputs.
      bind_io (call_io (Ev_generate 1000) (model_generate self inputs 1000)) (\<lambda>generate_ids.
      (let generate_ids = slice_cols generate_ids (shape1 (input_ids inputs)) in
       bind_io (call_io (Ev_batch_decode True False) (batch_decode self generate_ids True False))
         (\<lambda>texts.
       bind_io (lift_io (index0 texts)) (\<lambda>response.
       bind_io (close file_obj) (\<lambda>_.
       return_io response)))))))))"

text \<open>\<^verbatim>\<open>Phi4Model.process_audio\<close>\<close>

definition Phi4Model_process_audio ::
  "env \<Rightarrow> Phi4Model \<Rightarrow> string \<Rightarrow> string option \<Rightarrow> string io" where
  "Phi4Model_process_audio env self audio_url custom_prompt =
     try_except (process_audio_try env self audio_url custom_prompt)
       (\<lambda>e. raise_io (Exception (''Error processing audio: '' @ str_exc e)))"

section \<open>The HTTP routes\<close>

text \<open>
  A parsed JSON body. Python reads a number without fraction or exponent as an
  \<^verbatim>\<open>int\<close> and any other number as a \<^verbatim>\<open>float\<close>. The values inside an object are
  taken at the documented schema, strings; a key whose value is \<^verbatim>\<open>null\<close> reads as
  \<^verbatim>\<open>None\<close> through \<^verbatim>\<open>data.get\<close> exactly as a missing key does, so an optional
  field is either a string or not there.
\<close>

datatype json =
    JNull
  | JBool bool
  | JInt int
  | JFloat rat
  | JString string
  | JArray "json list"
  | JObject "(string \<times> string) list"

text \<open>
  The request as Flask holds it: the content type and the body, if there is one.
  \<^verbatim>\<open>request.get_json()\<close> belongs to Flask; it gives the parsed body, with \<open>JNull\<close>
  for Python's \<^verbatim>\<open>None\<close>, or raises. It is taken as it comes.
\<close>

record request =
  mimetype :: string
  payload :: "json option"

record http_response =
  status :: nat
  body :: "(string \<times> string) list"

text \<open>\<^verbatim>\<open>bool(data)\<close>: \<^verbatim>\<open>None\<close>, \<^verbatim>\<open>False\<close>, zero and the empty containers are falsy.\<close>

fun py_truthy :: "json \<Rightarrow> bool" where
  "py_truthy JNull = False"
| "py_truthy (JBool b) = b"
| "py_truthy (JInt n) = (n \<noteq> 0)"
| "py_truthy (JFloat x) = (x \<noteq> 0)"
| "py_truthy (JString s) = (s \<noteq> [])"
| "py_truthy (JArray xs) = (xs \<noteq> [])"
| "py_truthy (JObject d) = (d \<noteq> [])"

text \<open>\<^verbatim>\<open>type(data).__name__\<close>\<close>

fun py_type_name :: "json \<Rightarrow> string" where
  "py_type_name JNull = ''NoneType''"
| "py_type_name (JBool b) = ''bool''"
| "py_type_name (JInt n) = ''int''"
| "py_type_name (JFloat x) = ''float''"
| "py_type_name (JString s) = ''str''"
| "py_type_name (JArray xs) = ''list''"
| "py_type_name (JObject d) = ''dict''"

text \<open>
  \<^verbatim>\<open>k in data\<close> for a string \<open>k\<close>: a key of a dict, an element of a list, a part of
  a string; anything else is no container and the test raises \<^verbatim>\<open>TypeError\<close>.
\<close>

fun py_contains :: "string \<Rightarrow> json \<Rightarrow> py_exception + bool" where
  "py_contains k (JObject d) = Inr (map_of d k \<noteq> None)"
| "py_contains k (JArray xs) = Inr (JString k \<in> set xs)"
| "py_contains k (JString s) = Inr (py_in k s)"
| "py_contains k v =
     Inl (TypeError (''argument of type '' @ quoted (py_type_name v) @ '' is not iterable''))"

text \<open>\<^verbatim>\<open>data[k]\<close> and \<^verbatim>\<open>data.get(k)\<close> on a dict\<close>

definition dict_item :: "(string \<times> string) list \<Rightarrow> string \<Rightarrow> py_exception + string" where
  "dict_item d k = (case map_of d k of None \<Rightarrow> Inl (KeyError k) | Some v \<Rightarrow> Inr v)"

definition dict_get :: "(string \<times> string) list \<Rightarrow> string \<Rightarrow> string option" where
  "dict_get d k = map_of d k"

text \<open>
  When the \<^verbatim>\<open>except\<close> block of a route ends, the exception is dropped and with it
  the frame of the method that raised; CPython reclaims the file object that frame still
  held and closes its descriptor. \<open>n\<close> is the first descriptor that was free when the
  request came in: the descriptors from \<open>n\<close> on are those of the request.
\<close>

definition reclaim :: "nat \<Rightarrow> world \<Rightarrow> world" where
  "reclaim n w =
     w\<lparr>open_files := filter (\<lambda>fd. fd < n) (open_files w),
       calls := calls w @ map Ev_finalize (rev (filter (\<lambda>fd. n \<le> fd) (open_files w)))\<rparr>"

text \<open>\<^verbatim>\<open>POST /process_image\<close>; \<open>model\<close> is the module's \<^verbatim>\<open>model = Phi4Model()\<close>.\<close>

definition process_image ::
  "env \<Rightarrow> Phi4Model \<Rightarrow> (request \<Rightarrow> py_exception + json) \<Rightarrow> request \<Rightarrow> http_response io" where
  "process_image env model get_json req w =
     try_except
       (bind_io (lift_io (get_json req)) (\<lambda>data.
          if \<not> py_truthy data
          then return_io \<lparr>status = 400, body = [(''error'', ''image_url is required'')]\<rparr>
          else
            bind_io (lift_io (py_contains ''image_url'' data)) (\<lambda>present.
              if \<not> present
              then return_io \<lparr>status = 400, body = [(''error'', ''image_url is required'')]\<rparr>
              else
                (case data of
                   JObject d \<Rightarrow>
                     (let custom_prompt = dict_get d ''prompt'' in
                      bind_io (lift_io (dict_item d ''image_url'')) (\<lambda>image_url.
                      bind_io (Phi4Model_process_image env model image_url custom_prompt)
                        (\<lambda>response.
                      return_io \<lparr>status = 200, body = [(''response'', response)]\<rparr>)))
                 | _ \<Rightarrow>
                     raise_io (AttributeError (quoted (py_type_name data)
                       @ '' object has no attribute '' @ quoted ''get''))))))
       (\<lambda>e w'. (Inr \<lparr>status = 500, body = [(''error'', str_exc e)]\<rparr>, reclaim (next_fd w) w'))
       w"

text \<open>\<^verbatim>\<open>POST /process_audio\<close>\<close>

definition process_audio ::
  "env \<Rightarrow> Phi4Model \<Rightarrow> (request \<Rightarrow> py_exception + json) \<Rightarrow> request \<Rightarrow> http_response io" where
  "process_audio env model get_json req w =
     try_except
       (bind_io (lift_io (get_json req)) (\<lambda>data.
          if \<not> py_truthy data
          then return_io \<lparr>status = 400, body = [(''error'', ''audio_url is required'')]\<rparr>
          else
            bind_io (lift_io (py_contains ''audio_url'' data)) (\<lambda>present.
              if \<not> present
              then return_io \<lparr>status = 400, body = [(''error'', ''audio_url is required'')]\<rparr>
              else
                (case data of
                   JObject d \<Rightarrow>
                     (let custom_prompt = dict_get d ''prompt'' in
                      bind_io (lift_io (dict_item d ''audio_url'')) (\<lambda>audio_url.
                      bind_io (Phi4Model_process_audio env model audio_url custom_prompt)
                        (\<lambda>response.
                      return_io \<lparr>status = 200, body = [(''response'', response)]\<rparr>)))
                 | _ \<Rightarrow>
                     raise_io (AttributeError (quoted (py_type_name data)
                       @ '' object has no attribute '' @ quoted ''get''))))))
       (\<lambda>e w'. (Inr \<lparr>status = 500, body = [(''error'', str_exc e)]\<rparr>, reclaim (next_fd w) w'))
       w"

section \<open>The front-end's reading of an audio response\<close>

text \<open>
  \<^verbatim>\<open>s.split(sep)\<close> for a separator that is not empty: the string is cut at each
  occurrence of \<open>sep\<close>, found from the left, the search going on after the occurrence.
  \<open>cur\<close> is the segment read so far.
\<close>

function py_split_from :: "string \<Rightarrow> string \<Rightarrow> string \<Rightarrow> string list" where
  "py_split_from sep cur [] = [cur]"
| "py_split_from sep cur (c # cs) =
     (if sep \<noteq> [] \<and> prefix sep (c # cs)
      then cur # py_split_from sep [] (drop (length sep) (c # cs))
      else py_split_from sep (cur @ [c]) cs)"
  by pat_completeness auto
termination
  by (relation "measure (\<lambda>(sep, cur, s). length s)") auto

definition py_split :: "string \<Rightarrow> string \<Rightarrow> py_exception + string list" where
  "py_split s sep =
     (if sep = [] then Inl (ValueError ''empty separator'') else Inr (py_split_from sep [] s))"

text \<open>
  The result block of \<^verbatim>\<open>StreamlitApp.audio_interface\<close>: the texts handed to
  \<^verbatim>\<open>st.markdown\<close> after the heading, for the \<^verbatim>\<open>response\<close> field of the API's answer.
  \<^verbatim>\<open>transcript, translation = response.split("<sep>")\<close> raises \<^verbatim>\<open>ValueError\<close>
  unless the split has two parts. \<open>strip\<close> is Python's \<^verbatim>\<open>str.strip\<close>, which removes
  the white space of the Unicode tables at both ends; it is taken as it comes.
\<close>

definition audio_interface_results ::
  "(string \<Rightarrow> string) \<Rightarrow> string \<Rightarrow> py_exception + string list" where
  "audio_interface_results strip response =
     (if py_in ''<sep>'' response then
        (case py_split response ''<sep>'' of
           Inl e \<Rightarrow> Inl e
         | Inr parts \<Rightarrow>
             (case parts of
                [transcript, translation] \<Rightarrow>
                  Inr [''#### Original Transcript'', strip transcript,
                       ''#### French Translation'', strip translation]
              | _ \<Rightarrow>
                  (if length parts < 2
                   then Inl (ValueError (''not enough values to unpack (expected 2, got ''
                          @ str_nat (length parts) @ '')''))
                   else Inl (ValueError ''too many values to unpack (expected 2)''))))
      else Inr [response])"

section \<open>A sample deployment\<close>

text \<open>
  A small machine on which the theorems are run: the service works in \<^verbatim>\<open>/srv/app\<close>,
  which holds a picture, a text file and a recording; one host serves the picture.
  \<open>sample_urlparse\<close> lists what \<^verbatim>\<open>urlparse\<close> gives on the references used below; a
  reference without a colon has no scheme.
\<close>

definition photo_bytes :: bytes where
  "photo_bytes = [0xFF, 0xD8, 0xFF, 0xE0]"

definition notes_bytes :: bytes where
  "notes_bytes = [0x68, 0x69]"

definition speech_bytes :: bytes where
  "speech_bytes = [0x66, 0x4C, 0x61, 0x43]"

definition sample_urlparse :: "string \<Rightarrow> py_exception + parsed_url" where
  "sample_urlparse u =
     (if u = ''file:///photo.jpg'' then Inr \<lparr>scheme = ''file'', path = ''/photo.jpg''\<rparr>
      else if u = ''https://example.com/a.png'' then Inr \<lparr>scheme = ''https'', path = ''/a.png''\<rparr>
      else if u = ''https://example.com/gone.png'' then Inr \<lparr>scheme = ''https'', path = ''/gone.png''\<rparr>
      else if u = ''ftp://example.com/a.png'' then Inr \<lparr>scheme = ''ftp'', path = ''/a.png''\<rparr>
      else Inr \<lparr>scheme = '''', path = u\<rparr>)"

definition sample_abspath :: "string \<Rightarrow> string" where
  "sample_abspath p =
     (case p of [] \<Rightarrow> ''/srv/app''
      | c # _ \<Rightarrow> if c = CHR ''/'' then p else ''/srv/app/'' @ p)"

definition sample_dirs :: "string list" where
  "sample_dirs = [''/'', ''/srv'', ''/srv/app'']"

definition sample_files :: "(string \<times> bytes) list" where
  "sample_files = [(''/srv/app/photo.jpg'', photo_bytes), (''/srv/app/notes.txt'', notes_bytes),
                   (''/srv/app/speech.flac'', speech_bytes)]"

definition sample_exists :: "string \<Rightarrow> bool" where
  "sample_exists p = (p \<in> set sample_dirs \<or> map_of sample_files p \<noteq> None)"

definition sample_open_rb :: "string \<Rightarrow> py_exception + bytes" where
  "sample_open_rb p =
     (case map_of sample_files p of
        Some b \<Rightarrow> Inr b
      | None \<Rightarrow>
          if p \<in> set sample_dirs
          then Inl (Raised ''IsADirectoryError'' (''[Errno 21] Is a directory: '' @ quoted p))
          else Inl (FileNotFoundError (''[Errno 2] No such file or directory: '' @ quoted p)))"

definition sample_requests_get ::
  "string option \<Rightarrow> string \<Rightarrow> bool \<Rightarrow> (string \<times> string) list \<Rightarrow> py_exception + response" where
  "sample_requests_get ct u stream hs =
     (if u = ''https://example.com/a.png''
      then Inr \<lparr>status_code = 200, reason = ''OK'', content_type = ct, content = Inr photo_bytes\<rparr>
      else if u = ''https://example.com/gone.png''
      then Inr \<lparr>status_code = 404, reason = ''Not Found'', content_type = Some ''text/html'',
                content = Inr []\<rparr>
      else if take 6 u = ''ftp://''
      then Inl (Raised ''InvalidSchema'' (''No connection adapters were found for '' @ quoted u))
      else Inl (Raised ''ConnectionError'' ''Failed to establish a new connection''))"

definition sample_Image_open :: "bytes \<Rightarrow> py_exception + image" where
  "sample_Image_open b =
     (if b = photo_bytes then Inr [255, 0, 0]
      else Inl (Raised ''UnidentifiedImageError'' ''cannot identify image file''))"

definition sample_sf_read :: "bytes \<Rightarrow> py_exception + (audio \<times> nat)" where
  "sample_sf_read b =
     (if b = speech_bytes then Inr ([0, 1, - 1], 16000)
      else Inl (Raised ''LibsndfileError'' ''Format not recognised''))"

text \<open>The host declares the content type \<open>ct\<close> for the picture it serves.\<close>

definition sample_env :: "string option \<Rightarrow> env" where
  "sample_env ct =
     \<lparr>urlparse = sample_urlparse, os_path_abspath = sample_abspath,
      os_path_exists = sample_exists, open_rb = sample_open_rb,
      requests_get = sample_requests_get ct, Image_open = sample_Image_open,
      sf_read = sample_sf_read\<rparr>"

definition world0 :: world where
  "world0 = \<lparr>open_files = [], next_fd = 3, calls = []\<rparr>"

text \<open>
  A toy model runtime: one token per character, and one special token, 256, that ends
  a generation. The generator echoes its input and goes on with \<open>answer\<close>; the decoder
  leaves the special token out when asked to.
\<close>

definition toy_tokens :: "string \<Rightarrow> int list" where
  "toy_tokens s = map of_char s"

definition toy_processor :: "string \<Rightarrow> media \<Rightarrow> py_exception + inputs" where
  "toy_processor prompt m =
     Inr \<lparr>input_ids = \<lparr>shape0 = 1, shape1 = length prompt, rows = [toy_tokens prompt]\<rparr>,
          features = (case m of Images i \<Rightarrow> i | Audios xs \<Rightarrow> map snd xs)\<rparr>"

definition toy_generate :: "string \<Rightarrow> inputs \<Rightarrow> nat \<Rightarrow> py_exception + tensor" where
  "toy_generate answer inp max_new_tokens =
     (let new = take max_new_tokens (toy_tokens answer @ [256])
      in Inr \<lparr>shape0 = shape0 (input_ids inp), shape1 = shape1 (input_ids inp) + length new,
              rows = map (\<lambda>r. r @ new) (rows (input_ids inp))\<rparr>)"

definition toy_detok :: "bool \<Rightarrow> int \<Rightarrow> string" where
  "toy_detok skip_special_tokens i =
     (if i < 256 then [char_of i] else if skip_special_tokens then [] else ''<|end|>'')"

definition toy_batch_decode :: "tensor \<Rightarrow> bool \<Rightarrow> bool \<Rightarrow> py_exception + string list" where
  "toy_batch_decode t skip_special_tokens clean_up =
     Inr (map (\<lambda>r. concat (map (toy_detok skip_special_tokens) r)) (rows t))"

definition toy_model :: "string \<Rightarrow> Phi4Model" where
  "toy_model answer = Phi4Model_init toy_processor (toy_generate answer) toy_batch_decode"

text \<open>A model whose generator runs out of memory.\<close>

definition oom_generate :: "inputs \<Rightarrow> nat \<Rightarrow> py_exception + tensor" where
  "oom_generate inp max_new_tokens = Inl (Raised ''OutOfMemoryError'' ''CUDA out of memory'')"

definition oom_model :: Phi4Model where
  "oom_model = Phi4Model_init toy_processor oom_generate toy_batch_decode"

text \<open>
  Flask's \<^verbatim>\<open>get_json\<close> on the requests of the sample: a request that does not declare
  JSON is refused, a request that declares JSON and has no body cannot be parsed, and
  otherwise the parsed body comes back.
\<close>

definition flask_get_json :: "request \<Rightarrow> py_exception + json" where
  "flask_get_json req =
     (if mimetype req \<noteq> ''application/json''
      then Inl (Raised ''UnsupportedMediaType''
             (''415 Unsupported Media Type: Did not attempt to load JSON data because the request Content-Type was not ''
              @ quoted ''application/json'' @ ''.''))
      else (case payload req of
              None \<Rightarrow> Inl (Raised ''BadRequest''
                ''400 Bad Request: The browser (or proxy) sent a request that this server could not understand.'')
            | Some j \<Rightarrow> Inr j))"

definition post_json :: "json \<Rightarrow> request" where
  "post_json j = \<lparr>mimetype = ''application/json'', payload = Some j\<rparr>"

definition post_without_body :: request where
  "post_without_body = \<lparr>mimetype = ''application/json'', payload = None\<rparr>"

text \<open>
  \<^verbatim>\<open>str.strip\<close> on a text of ASCII characters: the white space of that range goes at
  both ends.
\<close>

definition ascii_isspace :: "char \<Rightarrow> bool" where
  "ascii_isspace c = (c \<in> set [CHR 0x09, CHR 0x0A, CHR 0x0B, CHR 0x0C, CHR 0x0D,
                                 CHR 0x1C, CHR 0x1D, CHR 0x1E, CHR 0x1F, CHR 0x20])"

definition ascii_strip :: "string \<Rightarrow> string" where
  "ascii_strip s = rev (dropWhile ascii_isspace (rev (dropWhile ascii_isspace s)))"

section \<open>Running the sample, and the steps of a statement\<close>

lemmas sample_defs =
  sample_env_def sample_urlparse_def sample_abspath_def sample_exists_def sample_dirs_def
  sample_files_def sample_open_rb_def sample_requests_get_def sample_Image_open_def
  sample_sf_read_def world0_def photo_bytes_def notes_bytes_def speech_bytes_def quoted_def

lemmas toy_defs =
  toy_model_def Phi4Model_init_def toy_processor_def toy_generate_def toy_batch_decode_def
  toy_detok_def toy_tokens_def

lemmas io_defs = bind_io_def lift_io_def return_io_def raise_io_def call_io_def try_except_def

lemma str_int_404: "str_int 404 = ''404''"
  by code_simp

lemma bind_io_Inr:
  assumes "bind_io m f w = (Inr y, w')"
  obtains x w1 where "m w = (Inr x, w1)" and "f x w1 = (Inr y, w')"
  using assms by (auto simp: bind_io_def split: prod.splits sum.splits)

lemma try_raise_Inr:
  assumes "try_except m (\<lambda>e. raise_io (h e)) w = (Inr y, w')"
  shows "m w = (Inr y, w')"
  using assms by (auto simp: try_except_def raise_io_def split: prod.splits sum.splits)

lemma call_io_Inr:
  assumes "call_io ev r w = (Inr x, w')"
  shows "r = Inr x \<and> w' = w\<lparr>calls := calls w @ [ev]\<rparr>"
  using assms by (auto simp: call_io_def)

lemma lift_io_Inr:
  assumes "lift_io r w = (Inr x, w')"
  shows "r = Inr x \<and> w' = w"
  using assms by (auto simp: lift_io_def)

lemma index0_Inr: "index0 xs = Inr x \<Longrightarrow> \<exists>rest. xs = x # rest"
  by (auto simp: index0_def split: list.splits)

section \<open>Prompt assembly\<close>

lemma py_or_simps:
  "py_or None d = d" "py_or (Some []) d = d" "s \<noteq> [] \<Longrightarrow> py_or (Some s) d = s"
  by (simp_all add: py_or_def)

lemma init_tokens:
  "user_prompt (Phi4Model_init p g d) = ''<|user|>''"
  "assistant_prompt (Phi4Model_init p g d) = ''<|assistant|>''"
  "prompt_suffix (Phi4Model_init p g d) = ''<|end|>''"
  by (simp_all add: Phi4Model_init_def)

lemma py_in_prefix: "prefix sub s \<Longrightarrow> py_in sub s"
  by (cases s) simp_all

lemma py_in_here: "py_in sub (sub @ b)"
  by (simp add: py_in_prefix)

lemma py_in_append: "py_in sub (a @ sub @ b)"
  by (induction a) (simp_all add: py_in_here)

text \<open>
  C2, as the code has it. For every instruction string \<open>s\<close> that is not empty, the
  prompt of the image path is \<^verbatim>\<open><|user|><|image_1|>\<close>, then \<open>s\<close>, then
  \<^verbatim>\<open><|end|><|assistant|>\<close>, and the prompt of the audio path is the same with
  \<^verbatim>\<open><|audio_1|>\<close>. Without an instruction the image path asks "What is shown in this
  image?" and the audio path uses its fixed transcribe-and-translate instruction, which
  contains the marker \<^verbatim>\<open><sep>\<close>.
\<close>

theorem assembled_prompt:
  assumes "s \<noteq> []"
  shows "image_prompt (Phi4Model_init p g d) (Some s)
           = ''<|user|><|image_1|>'' @ s @ ''<|end|><|assistant|>''
       \<and> audio_prompt (Phi4Model_init p g d) (Some s)
           = ''<|user|><|audio_1|>'' @ s @ ''<|end|><|assistant|>''
       \<and> image_prompt (Phi4Model_init p g d) None
           = ''<|user|><|image_1|>What is shown in this image?<|end|><|assistant|>''
       \<and> audio_prompt (Phi4Model_init p g d) None
           = ''<|user|><|audio_1|>'' @ default_prompt @ ''<|end|><|assistant|>''
       \<and> py_in ''<sep>'' default_prompt"
proof -
  have "py_in ''<sep>'' default_prompt"
    unfolding default_prompt_def by code_simp
  with assms show ?thesis
    by (simp add: image_prompt_def audio_prompt_def init_tokens py_or_simps)
qed

theorem assembled_prompt_witness:
  "''X'' \<noteq> []
   \<and> audio_prompt (toy_model []) (Some ''X'') = ''<|user|><|audio_1|>X<|end|><|assistant|>''
   \<and> image_prompt (toy_model []) None
       = ''<|user|><|image_1|>What is shown in this image?<|end|><|assistant|>''"
  using assembled_prompt [of "''X''" toy_processor "toy_generate []" toy_batch_decode]
  by (simp add: toy_model_def)

text \<open>
  C2 as it is written fails at the empty instruction: the prompt is not the two control
  sequences around nothing, it carries the default question.
\<close>

theorem assembled_prompt_counterexample:
  "image_prompt (toy_model []) (Some []) \<noteq> ''<|user|><|image_1|>'' @ [] @ ''<|end|><|assistant|>''"
  by (simp add: image_prompt_def toy_model_def init_tokens py_or_simps)

text \<open>
  C10. An instruction that is the empty string is treated as no instruction: the prompt
  assembled for \<^verbatim>\<open>""\<close> is the prompt assembled for \<^verbatim>\<open>None\<close>, on the image path and
  on the audio path, so the two calls do the same; the prompt is the one with the
  default instruction, not the control sequences around the empty string.
\<close>

theorem empty_instruction_is_absent:
  "image_prompt self (Some []) = image_prompt self None
   \<and> audio_prompt self (Some []) = audio_prompt self None
   \<and> Phi4Model_process_image env self url (Some []) = Phi4Model_process_image env self url None
   \<and> Phi4Model_process_audio env self url (Some []) = Phi4Model_process_audio env self url None
   \<and> image_prompt (Phi4Model_init p g d) (Some [])
       = ''<|user|><|image_1|>What is shown in this image?<|end|><|assistant|>''
   \<and> audio_prompt (Phi4Model_init p g d) (Some [])
       = ''<|user|><|audio_1|>'' @ default_prompt @ ''<|end|><|assistant|>''"
  by (simp add: image_prompt_def audio_prompt_def py_or_simps init_tokens
      Phi4Model_process_image_def Phi4Model_process_audio_def
      process_image_try_def process_audio_try_def)

section \<open>Loading a reference\<close>

lemma load_file_local:
  assumes "urlparse env url = Inr parsed" and "scheme parsed = [] \<or> scheme parsed = ''file''"
  shows "Phi4Model_load_file env url w =
     (let p = (if scheme parsed = ''file'' then lstrip_slash (path parsed) else url);
          abs_path = os_path_abspath env p
      in if \<not> os_path_exists env abs_path
         then (Inl (FileNotFoundError (''Local file not found: '' @ abs_path)), w)
         else py_open env abs_path w)"
  using assms by (auto simp: Phi4Model_load_file_def io_defs Let_def)

lemma load_file_remote:
  assumes "urlparse env url = Inr parsed" and "scheme parsed \<noteq> []" and "scheme parsed \<noteq> ''file''"
  shows "Phi4Model_load_file env url w =
     (let w' = w\<lparr>calls := calls w @ [Ev_requests_get url True headers]\<rparr> in
      case requests_get env url True headers of
        Inl e \<Rightarrow> (Inl e, w')
      | Inr resp \<Rightarrow>
          if status_code resp \<noteq> 200
          then (Inl (Exception (''Failed to fetch remote file: HTTP ''
                  @ str_int (status_code resp) @ '' - '' @ reason resp)), w')
          else (case content resp of Inl e \<Rightarrow> (Inl e, w') | Inr b \<Rightarrow> (Inr (BytesIO b), w')))"
  using assms by (auto simp: Phi4Model_load_file_def io_defs Let_def split: sum.splits)

lemma lstrip_slash_decomp: "\<exists>n. s = replicate n (CHR ''/'') @ lstrip_slash s"
proof -
  let ?t = "takeWhile (\<lambda>c. c = CHR ''/'') s"
  have "s = ?t @ lstrip_slash s"
    by (simp add: lstrip_slash_def)
  moreover have "?t = replicate (length ?t) (CHR ''/'')"
    by (induction s) auto
  ultimately show ?thesis by metis
qed

lemma lstrip_slash_no_slash: "\<not> prefix ''/'' (lstrip_slash s)"
  by (induction s) (auto simp: lstrip_slash_def)

text \<open>
  C4, as the code has it. For every reference whose scheme is empty or \<^verbatim>\<open>file\<close>,
  \<^verbatim>\<open>load_file\<close> takes the local path. With the scheme \<^verbatim>\<open>file\<close> the path is the path
  component of the parsed reference without its leading slashes, all of them; with the
  empty scheme it is the reference as given. The path is made absolute. If nothing exists
  there, \<^verbatim>\<open>load_file\<close> raises \<^verbatim>\<open>FileNotFoundError\<close> ("Local file not found: ...")
  and opens nothing. If something exists there, \<^verbatim>\<open>load_file\<close> does what
  \<^verbatim>\<open>open(abs_path, "rb")\<close> does: it returns the open byte stream of that file, which
  now holds a descriptor, or it raises the error of \<^verbatim>\<open>open\<close>.
\<close>

theorem load_file_local_reference:
  assumes "urlparse env url = Inr parsed" and "scheme parsed = [] \<or> scheme parsed = ''file''"
  shows "(\<exists>n. path parsed = replicate n (CHR ''/'') @ lstrip_slash (path parsed))
       \<and> \<not> prefix ''/'' (lstrip_slash (path parsed))
       \<and> Phi4Model_load_file env url w =
     (let p = (if scheme parsed = ''file'' then lstrip_slash (path parsed) else url);
          abs_path = os_path_abspath env p;
          w' = w\<lparr>calls := calls w @ [Ev_open abs_path]\<rparr>
      in if \<not> os_path_exists env abs_path
         then (Inl (FileNotFoundError (''Local file not found: '' @ abs_path)), w)
         else (case open_rb env abs_path of
                 Inl e \<Rightarrow> (Inl e, w')
               | Inr b \<Rightarrow> (Inr (LocalFile (next_fd w) b),
                    w'\<lparr>open_files := next_fd w # open_files w, next_fd := Suc (next_fd w)\<rparr>)))"
  using lstrip_slash_decomp [of "path parsed"] lstrip_slash_no_slash [of "path parsed"]
    load_file_local [OF assms, of w]
  by (auto simp: Let_def py_open_def split: sum.splits)

theorem load_file_local_reference_witness:
  "urlparse (sample_env None) ''file:///photo.jpg'' = Inr \<lparr>scheme = ''file'', path = ''/photo.jpg''\<rparr>
   \<and> Phi4Model_load_file (sample_env None) ''file:///photo.jpg'' world0
       = (Inr (LocalFile 3 photo_bytes),
          \<lparr>open_files = [3], next_fd = 4, calls = [Ev_open ''/srv/app/photo.jpg'']\<rparr>)
   \<and> urlparse (sample_env None) ''nothing.jpg'' = Inr \<lparr>scheme = [], path = ''nothing.jpg''\<rparr>
   \<and> Phi4Model_load_file (sample_env None) ''nothing.jpg'' world0
       = (Inl (FileNotFoundError ''Local file not found: /srv/app/nothing.jpg''), world0)"
  using load_file_local_reference [of "sample_env None" "''file:///photo.jpg''"
      "\<lparr>scheme = ''file'', path = ''/photo.jpg''\<rparr>" world0]
    load_file_local_reference [of "sample_env None" "''nothing.jpg''"
      "\<lparr>scheme = [], path = ''nothing.jpg''\<rparr>" world0]
  by (simp add: sample_defs lstrip_slash_def Let_def)

text \<open>
  C4 as it is written fails where the path exists and cannot be opened for reading: the
  reference \<^verbatim>\<open>/\<close> has the empty scheme and names a directory, which exists; no
  stream comes back, and the error is not the file-not-found one.
\<close>

theorem load_file_local_reference_counterexample:
  "urlparse (sample_env None) ''/'' = Inr \<lparr>scheme = [], path = ''/''\<rparr>
   \<and> os_path_exists (sample_env None) (os_path_abspath (sample_env None) ''/'')
   \<and> Phi4Model_load_file (sample_env None) ''/'' world0
       = (Inl (Raised ''IsADirectoryError'' (''[Errno 21] Is a directory: '' @ quoted ''/'')),
          \<lparr>open_files = [], next_fd = 3, calls = [Ev_open ''/'']\<rparr>)"
  by (simp add: sample_defs Phi4Model_load_file_def io_defs py_open_def)

text \<open>
  C5, as the code has it. For every reference whose scheme is neither empty nor
  \<^verbatim>\<open>file\<close>, \<^verbatim>\<open>load_file\<close> takes the remote path: it issues one GET for the reference,
  streaming, with the browser's \<^verbatim>\<open>User-Agent\<close>. If the HTTP client raises, its error
  goes up as it is. If a response comes back, \<^verbatim>\<open>load_file\<close> raises "Failed to fetch
  remote file: HTTP status - reason" exactly when the status is not 200; with status
  200 it returns the whole body as a stream in memory, or the error met while the body
  was read. No file is opened.
\<close>

theorem load_file_remote_reference:
  assumes "urlparse env url = Inr parsed" and "scheme parsed \<noteq> []" and "scheme parsed \<noteq> ''file''"
  shows "map_of headers ''User-Agent'' = Some ''Mozilla/5.0 (Windows NT 10.0; Win64; x64) AppleWebKit/537.36 (KHTML, like Gecko) Chrome/91.0.4472.124 Safari/537.36''
     \<and> Phi4Model_load_file env url w =
     (let w' = w\<lparr>calls := calls w @ [Ev_requests_get url True headers]\<rparr> in
      case requests_get env url True headers of
        Inl e \<Rightarrow> (Inl e, w')
      | Inr resp \<Rightarrow>
          if status_code resp \<noteq> 200
          then (Inl (Exception (''Failed to fetch remote file: HTTP ''
                  @ str_int (status_code resp) @ '' - '' @ reason resp)), w')
          else (case content resp of Inl e \<Rightarrow> (Inl e, w') | Inr b \<Rightarrow> (Inr (BytesIO b), w')))"
  using load_file_remote [OF assms, of w] by (simp add: headers_def)

theorem load_file_remote_reference_witness:
  "urlparse (sample_env None) ''https://example.com/a.png'' = Inr \<lparr>scheme = ''https'', path = ''/a.png''\<rparr>
   \<and> Phi4Model_load_file (sample_env None) ''https://example.com/a.png'' world0
       = (Inr (BytesIO photo_bytes),
          \<lparr>open_files = [], next_fd = 3,
           calls = [Ev_requests_get ''https://example.com/a.png'' True headers]\<rparr>)
   \<and> urlparse (sample_env None) ''https://example.com/gone.png'' = Inr \<lparr>scheme = ''https'', path = ''/gone.png''\<rparr>
   \<and> Phi4Model_load_file (sample_env None) ''https://example.com/gone.png'' world0
       = (Inl (Exception ''Failed to fetch remote file: HTTP 404 - Not Found''),
          \<lparr>open_files = [], next_fd = 3,
           calls = [Ev_requests_get ''https://example.com/gone.png'' True headers]\<rparr>)"
  using load_file_remote_reference [of "sample_env None" "''https://example.com/a.png''"
      "\<lparr>scheme = ''https'', path = ''/a.png''\<rparr>" world0]
    load_file_remote_reference [of "sample_env None" "''https://example.com/gone.png''"
      "\<lparr>scheme = ''https'', path = ''/gone.png''\<rparr>" world0]
    str_int_404
  by (simp add: sample_defs Let_def)

text \<open>
  C5 as it is written fails where no response comes back: for \<^verbatim>\<open>ftp://\<close>, which the
  claim names, the HTTP client has no adapter and raises; \<^verbatim>\<open>load_file\<close> fails, with
  no status at hand, and returns no body.
\<close>

theorem load_file_remote_reference_counterexample:
  "urlparse (sample_env None) ''ftp://example.com/a.png'' = Inr \<lparr>scheme = ''ftp'', path = ''/a.png''\<rparr>
   \<and> Phi4Model_load_file (sample_env None) ''ftp://example.com/a.png'' world0
       = (Inl (Raised ''InvalidSchema''
                (''No connection adapters were found for '' @ quoted ''ftp://example.com/a.png'')),
          \<lparr>open_files = [], next_fd = 3,
           calls = [Ev_requests_get ''ftp://example.com/a.png'' True headers]\<rparr>)"
  by (simp add: sample_defs Phi4Model_load_file_def io_defs)

text \<open>
  C6, as the code has it. For every successful remote fetch, what \<^verbatim>\<open>load_file\<close>
  returns is the stream over the body and nothing else: the content type the response
  declares is not kept, and a response that differs only in its declared content type
  gives the same result.
\<close>

theorem load_file_drops_content_type:
  assumes "urlparse env url = Inr parsed" and "scheme parsed \<noteq> []" and "scheme parsed \<noteq> ''file''"
    and "requests_get env url True headers = Inr resp" and "status_code resp = 200"
    and "content resp = Inr b"
  shows "Phi4Model_load_file env url w
           = (Inr (BytesIO b), w\<lparr>calls := calls w @ [Ev_requests_get url True headers]\<rparr>)
       \<and> Phi4Model_load_file (env\<lparr>requests_get := \<lambda>u s h. Inr (resp\<lparr>content_type := ct\<rparr>)\<rparr>) url w
           = Phi4Model_load_file env url w"
proof -
  have 1: "Phi4Model_load_file env url w
           = (Inr (BytesIO b), w\<lparr>calls := calls w @ [Ev_requests_get url True headers]\<rparr>)"
    using load_file_remote [OF assms(1-3), of w] assms(4-6) by (simp add: Let_def)
  let ?env = "env\<lparr>requests_get := \<lambda>u s h. Inr (resp\<lparr>content_type := ct\<rparr>)\<rparr>"
  have "urlparse ?env url = Inr parsed" using assms(1) by simp
  from load_file_remote [OF this assms(2,3), of w] assms(5,6)
  have "Phi4Model_load_file ?env url w
           = (Inr (BytesIO b), w\<lparr>calls := calls w @ [Ev_requests_get url True headers]\<rparr>)"
    by (simp add: Let_def)
  with 1 show ?thesis by simp
qed

theorem load_file_drops_content_type_witness:
  "Phi4Model_load_file (sample_env (Some ''image/png'')) ''https://example.com/a.png'' world0
     = (Inr (BytesIO photo_bytes),
        \<lparr>open_files = [], next_fd = 3,
         calls = [Ev_requests_get ''https://example.com/a.png'' True headers]\<rparr>)"
  using load_file_drops_content_type [of "sample_env (Some ''image/png'')"
      "''https://example.com/a.png''" "\<lparr>scheme = ''https'', path = ''/a.png''\<rparr>"
      "\<lparr>status_code = 200, reason = ''OK'', content_type = Some ''image/png'',
        content = Inr photo_bytes\<rparr>" photo_bytes world0]
  by (simp add: sample_defs)

text \<open>
  C6 as it is written fails: the host answers once declaring \<^verbatim>\<open>image/png\<close> and once
  declaring \<^verbatim>\<open>image/jpeg\<close>, and \<^verbatim>\<open>load_file\<close> returns the same value both times, so
  the declared type cannot be read off what it returns.
\<close>

theorem load_file_drops_content_type_counterexample:
  "requests_get (sample_env (Some ''image/png'')) ''https://example.com/a.png'' True headers
     = Inr \<lparr>status_code = 200, reason = ''OK'', content_type = Some ''image/png'',
            content = Inr photo_bytes\<rparr>
   \<and> requests_get (sample_env (Some ''image/jpeg'')) ''https://example.com/a.png'' True headers
     = Inr \<lparr>status_code = 200, reason = ''OK'', content_type = Some ''image/jpeg'',
            content = Inr photo_bytes\<rparr>
   \<and> fst (Phi4Model_load_file (sample_env (Some ''image/png'')) ''https://example.com/a.png'' world0)
       = Inr (BytesIO photo_bytes)
   \<and> fst (Phi4Model_load_file (sample_env (Some ''image/jpeg'')) ''https://example.com/a.png'' world0)
       = Inr (BytesIO photo_bytes)"
  by (simp add: sample_defs Phi4Model_load_file_def io_defs)

section \<open>The routes\<close>

lemma truthy_object: "map_of d k = Some v \<Longrightarrow> d \<noteq> []"
  by auto

text \<open>
  C7, as the code has it. When \<^verbatim>\<open>request.get_json()\<close> returns a body that is
  falsy (\<^verbatim>\<open>None\<close> for a JSON \<^verbatim>\<open>null\<close>, \<^verbatim>\<open>false\<close>, zero, an empty string, list or
  object) or a body that does not contain \<^verbatim>\<open>image_url\<close>, as a JSON object without
  that key, \<^verbatim>\<open>POST /process_image\<close> is answered with status 400 and the body
  \<^verbatim>\<open>{"error": "image_url is required"}\<close>, and the world is as before: no file is opened,
  no library and no model is called. The same holds for \<^verbatim>\<open>POST /process_audio\<close> and
  \<^verbatim>\<open>audio_url\<close>.
\<close>

theorem missing_url_is_rejected:
  assumes "get_json req = Inr data"
    and "\<not> py_truthy data \<or> py_contains ''image_url'' data = Inr False"
    and "get_json req' = Inr data'"
    and "\<not> py_truthy data' \<or> py_contains ''audio_url'' data' = Inr False"
  shows "process_image env model get_json req w
           = (Inr \<lparr>status = 400, body = [(''error'', ''image_url is required'')]\<rparr>, w)
       \<and> process_audio env model get_json req' w
           = (Inr \<lparr>status = 400, body = [(''error'', ''audio_url is required'')]\<rparr>, w)"
  using assms by (auto simp: process_image_def process_audio_def io_defs)

theorem missing_url_is_rejected_witness:
  "flask_get_json (post_json JNull) = Inr JNull
   \<and> \<not> py_truthy JNull
   \<and> process_image (sample_env None) (toy_model ''A stop sign.'') flask_get_json
        (post_json JNull) world0
       = (Inr \<lparr>status = 400, body = [(''error'', ''image_url is required'')]\<rparr>, world0)
   \<and> flask_get_json (post_json (JObject [(''image_url'', ''photo.jpg'')]))
       = Inr (JObject [(''image_url'', ''photo.jpg'')])
   \<and> py_contains ''audio_url'' (JObject [(''image_url'', ''photo.jpg'')]) = Inr False
   \<and> process_audio (sample_env None) (toy_model ''A stop sign.'') flask_get_json
        (post_json (JObject [(''image_url'', ''photo.jpg'')])) world0
       = (Inr \<lparr>status = 400, body = [(''error'', ''audio_url is required'')]\<rparr>, world0)"
  using missing_url_is_rejected [of flask_get_json "post_json JNull" JNull
      "post_json (JObject [(''image_url'', ''photo.jpg'')])" "JObject [(''image_url'', ''photo.jpg'')]"
      "sample_env None" "toy_model ''A stop sign.''" world0]
  by (simp add: flask_get_json_def post_json_def)

text \<open>
  C7 as it is written fails for a request whose body is absent: Flask's
  \<^verbatim>\<open>get_json\<close> raises, the \<^verbatim>\<open>except\<close> of the route catches it, and the answer is
  status 500 with Flask's message, on both routes. A body that is the number 5 has no
  key \<^verbatim>\<open>image_url\<close> either; the test \<^verbatim>\<open>"image_url" not in data\<close> raises
  \<^verbatim>\<open>TypeError\<close> and the answer is 500 as well.
\<close>

theorem missing_url_is_rejected_counterexample:
  "process_image (sample_env None) (toy_model ''A stop sign.'') flask_get_json
     post_without_body world0
   = (Inr \<lparr>status = 500,
           body = [(''error'', ''400 Bad Request: The browser (or proxy) sent a request that this server could not understand.'')]\<rparr>,
      world0)
   \<and> process_audio (sample_env None) (toy_model ''A stop sign.'') flask_get_json
     post_without_body world0
   = (Inr \<lparr>status = 500,
           body = [(''error'', ''400 Bad Request: The browser (or proxy) sent a request that this server could not understand.'')]\<rparr>,
      world0)
   \<and> process_image (sample_env None) (toy_model ''A stop sign.'') flask_get_json
     (post_json (JInt 5)) world0
   = (Inr \<lparr>status = 500,
           body = [(''error'', ''argument of type '' @ quoted ''int'' @ '' is not iterable'')]\<rparr>,
      world0)"
  by (simp add: process_image_def process_audio_def io_defs flask_get_json_def post_json_def
      post_without_body_def world0_def reclaim_def quoted_def)

text \<open>
  Where \<^verbatim>\<open>request.get_json()\<close> itself raises, the handler of the route answers with
  status 500 and the message of that error; nothing else is done.
\<close>

lemma get_json_failure_is_500:
  "get_json req = Inl e \<Longrightarrow> process_image env model get_json req w
     = (Inr \<lparr>status = 500, body = [(''error'', str_exc e)]\<rparr>, reclaim (next_fd w) w)"
  "get_json req = Inl e \<Longrightarrow> process_audio env model get_json req w
     = (Inr \<lparr>status = 500, body = [(''error'', str_exc e)]\<rparr>, reclaim (next_fd w) w)"
  by (simp_all add: process_image_def process_audio_def io_defs)

text \<open>
  A failure of the statements inside the \<^verbatim>\<open>try\<close> of the model's method becomes the
  500 answer of the route, and a failing stage makes those statements fail at that
  stage, the later ones not being called.
\<close>

lemma route_image_failure:
  assumes "get_json req = Inr (JObject d)" and "map_of d ''image_url'' = Some url"
    and "process_image_try env model url (map_of d ''prompt'') w = (Inl e, w')"
  shows "process_image env model get_json req w
     = (Inr \<lparr>status = 500, body = [(''error'', ''Error processing image: '' @ str_exc e)]\<rparr>,
        reclaim (next_fd w) w')"
  using assms truthy_object [OF assms(2)]
  by (simp add: process_image_def Phi4Model_process_image_def io_defs dict_get_def dict_item_def)

lemma route_audio_failure:
  assumes "get_json req = Inr (JObject d)" and "map_of d ''audio_url'' = Some url"
    and "process_audio_try env model url (map_of d ''prompt'') w = (Inl e, w')"
  shows "process_audio env model get_json req w
     = (Inr \<lparr>status = 500, body = [(''error'', ''Error processing audio: '' @ str_exc e)]\<rparr>,
        reclaim (next_fd w) w')"
  using assms truthy_object [OF assms(2)]
  by (simp add: process_audio_def Phi4Model_process_audio_def io_defs dict_get_def dict_item_def)

lemma image_try_load_fails:
  "Phi4Model_load_file env url w = (Inl e, w1) \<Longrightarrow>
   process_image_try env self url cp w = (Inl e, w1)"
  by (simp add: process_image_try_def io_defs Let_def)

lemma image_try_decode_fails:
  "Phi4Model_load_file env url w = (Inr f, w1) \<Longrightarrow> Image_open env (file_bytes f) = Inl e \<Longrightarrow>
   process_image_try env self url cp w = (Inl e, w1\<lparr>calls := calls w1 @ [Ev_Image_open]\<rparr>)"
  by (simp add: process_image_try_def io_defs Let_def)

lemma image_try_processor_fails:
  "Phi4Model_load_file env url w = (Inr f, w1) \<Longrightarrow> Image_open env (file_bytes f) = Inr img \<Longrightarrow>
   processor self (image_prompt self cp) (Images img) = Inl e \<Longrightarrow>
   process_image_try env self url cp w
     = (Inl e, w1\<lparr>calls := calls w1 @ [Ev_Image_open, Ev_processor (image_prompt self cp)]\<rparr>)"
  by (simp add: process_image_try_def io_defs Let_def)

lemma image_try_generate_fails:
  "Phi4Model_load_file env url w = (Inr f, w1) \<Longrightarrow> Image_open env (file_bytes f) = Inr img \<Longrightarrow>
   processor self (image_prompt self cp) (Images img) = Inr inp \<Longrightarrow>
   model_generate self inp 1000 = Inl e \<Longrightarrow>
   process_image_try env self url cp w
     = (Inl e, w1\<lparr>calls := calls w1 @ [Ev_Image_open, Ev_processor (image_prompt self cp),
                                        Ev_generate 1000]\<rparr>)"
  by (simp add: process_image_try_def io_defs Let_def)

lemma image_try_batch_decode_fails:
  "Phi4Model_load_file env url w = (Inr f, w1) \<Longrightarrow> Image_open env (file_bytes f) = Inr img \<Longrightarrow>
   processor self (image_prompt self cp) (Images img) = Inr inp \<Longrightarrow>
   model_generate self inp 1000 = Inr out \<Longrightarrow>
   batch_decode self (slice_cols out (shape1 (input_ids inp))) True False = Inl e \<Longrightarrow>
   process_image_try env self url cp w
     = (Inl e, w1\<lparr>calls := calls w1 @ [Ev_Image_open, Ev_processor (image_prompt self cp),
                                        Ev_generate 1000, Ev_batch_decode True False]\<rparr>)"
  by (simp add: process_image_try_def io_defs Let_def)

lemma audio_try_load_fails:
  "Phi4Model_load_file env url w = (Inl e, w1) \<Longrightarrow>
   process_audio_try env self url cp w = (Inl e, w1)"
  by (simp add: process_audio_try_def io_defs Let_def)

lemma audio_try_decode_fails:
  "Phi4Model_load_file env url w = (Inr f, w1) \<Longrightarrow> sf_read env (file_bytes f) = Inl e \<Longrightarrow>
   process_audio_try env self url cp w = (Inl e, w1\<lparr>calls := calls w1 @ [Ev_sf_read]\<rparr>)"
  by (simp add: process_audio_try_def io_defs Let_def)

lemma audio_try_processor_fails:
  "Phi4Model_load_file env url w = (Inr f, w1) \<Longrightarrow>
   sf_read env (file_bytes f) = Inr (audio, samplerate) \<Longrightarrow>
   processor self (audio_prompt self cp) (Audios [(audio, samplerate)]) = Inl e \<Longrightarrow>
   process_audio_try env self url cp w
     = (Inl e, w1\<lparr>calls := calls w1 @ [Ev_sf_read, Ev_processor (audio_prompt self cp)]\<rparr>)"
  by (simp add: process_audio_try_def io_defs Let_def)

lemma audio_try_generate_fails:
  "Phi4Model_load_file env url w = (Inr f, w1) \<Longrightarrow>
   sf_read env (file_bytes f) = Inr (audio, samplerate) \<Longrightarrow>
   processor self (audio_prompt self cp) (Audios [(audio, samplerate)]) = Inr inp \<Longrightarrow>
   model_generate self inp 1000 = Inl e \<Longrightarrow>
   process_audio_try env self url cp w
     = (Inl e, w1\<lparr>calls := calls w1 @ [Ev_sf_read, Ev_processor (audio_prompt self cp),
                                        Ev_generate 1000]\<rparr>)"
  by (simp add: process_audio_try_def io_defs Let_def)

lemma audio_try_batch_decode_fails:
  "Phi4Model_load_file env url w = (Inr f, w1) \<Longrightarrow>
   sf_read env (file_bytes f) = Inr (audio, samplerate) \<Longrightarrow>
   processor self (audio_prompt self cp) (Audios [(audio, samplerate)]) = Inr inp \<Longrightarrow>
   model_generate self inp 1000 = Inr out \<Longrightarrow>
   batch_decode self (slice_cols out (shape1 (input_ids inp))) True False = Inl e \<Longrightarrow>
   process_audio_try env self url cp w
     = (Inl e, w1\<lparr>calls := calls w1 @ [Ev_sf_read, Ev_processor (audio_prompt self cp),
                                        Ev_generate 1000, Ev_batch_decode True False]\<rparr>)"
  by (simp add: process_audio_try_def io_defs Let_def)

text \<open>
  C8. Take a \<^verbatim>\<open>POST /process_image\<close> whose body is an object with the key
  \<^verbatim>\<open>image_url\<close>. If loading the reference fails, or the picture cannot be decoded, or
  the processor, the generator or the text decoder fails, the route answers with status
  500 and a body that holds the one field \<^verbatim>\<open>error\<close>: the text "Error processing
  image: " followed by the message of the failure; the stages after the failing one are
  not called. \<^verbatim>\<open>POST /process_audio\<close> does the same with "Error processing audio: ".
  Nothing else tells the failures apart.
\<close>

theorem stage_failure_is_500:
  "(get_json req = Inr (JObject d) \<and> map_of d ''image_url'' = Some url \<longrightarrow>
      (\<forall>e w1. Phi4Model_load_file env url w = (Inl e, w1) \<longrightarrow>
         process_image env model get_json req w
           = (Inr \<lparr>status = 500, body = [(''error'', ''Error processing image: '' @ str_exc e)]\<rparr>,
              reclaim (next_fd w) w1))
    \<and> (\<forall>f w1 e. Phi4Model_load_file env url w = (Inr f, w1)
           \<and> Image_open env (file_bytes f) = Inl e \<longrightarrow>
         process_image env model get_json req w
           = (Inr \<lparr>status = 500, body = [(''error'', ''Error processing image: '' @ str_exc e)]\<rparr>,
              reclaim (next_fd w) (w1\<lparr>calls := calls w1 @ [Ev_Image_open]\<rparr>)))
    \<and> (\<forall>f w1 img e. Phi4Model_load_file env url w = (Inr f, w1)
           \<and> Image_open env (file_bytes f) = Inr img
           \<and> processor model (image_prompt model (map_of d ''prompt'')) (Images img) = Inl e \<longrightarrow>
         process_image env model get_json req w
           = (Inr \<lparr>status = 500, body = [(''error'', ''Error processing image: '' @ str_exc e)]\<rparr>,
              reclaim (next_fd w)
                (w1\<lparr>calls := calls w1 @ [Ev_Image_open,
                   Ev_processor (image_prompt model (map_of d ''prompt''))]\<rparr>)))
    \<and> (\<forall>f w1 img inp e. Phi4Model_load_file env url w = (Inr f, w1)
           \<and> Image_open env (file_bytes f) = Inr img
           \<and> processor model (image_prompt model (map_of d ''prompt'')) (Images img) = Inr inp
           \<and> model_generate model inp 1000 = Inl e \<longrightarrow>
         process_image env model get_json req w
           = (Inr \<lparr>status = 500, body = [(''error'', ''Error processing image: '' @ str_exc e)]\<rparr>,
              reclaim (next_fd w)
                (w1\<lparr>calls := calls w1 @ [Ev_Image_open,
                   Ev_processor (image_prompt model (map_of d ''prompt'')), Ev_generate 1000]\<rparr>)))
    \<and> (\<forall>f w1 img inp out e. Phi4Model_load_file env url w = (Inr f, w1)
           \<and> Image_open env (file_bytes f) = Inr img
           \<and> processor model (image_prompt model (map_of d ''prompt'')) (Images img) = Inr inp
           \<and> model_generate model inp 1000 = Inr out
           \<and> batch_decode model (slice_cols out (shape1 (input_ids inp))) True False = Inl e \<longrightarrow>
         process_image env model get_json req w
           = (Inr \<lparr>status = 500, body = [(''error'', ''Error processing image: '' @ str_exc e)]\<rparr>,
              reclaim (next_fd w)
                (w1\<lparr>calls := calls w1 @ [Ev_Image_open,
                   Ev_processor (image_prompt model (map_of d ''prompt'')), Ev_generate 1000,
                   Ev_batch_decode True False]\<rparr>))))
   \<and> (get_json req = Inr (JObject d) \<and> map_of d ''audio_url'' = Some url \<longrightarrow>
      (\<forall>e w1. Phi4Model_load_file env url w = (Inl e, w1) \<longrightarrow>
         process_audio env model get_json req w
           = (Inr \<lparr>status = 500, body = [(''error'', ''Error processing audio: '' @ str_exc e)]\<rparr>,
              reclaim (next_fd w) w1))
    \<and> (\<forall>f w1 e. Phi4Model_load_file env url w = (Inr f, w1)
           \<and> sf_read env (file_bytes f) = Inl e \<longrightarrow>
         process_audio env model get_json req w
           = (Inr \<lparr>status = 500, body = [(''error'', ''Error processing audio: '' @ str_exc e)]\<rparr>,
              reclaim (next_fd w) (w1\<lparr>calls := calls w1 @ [Ev_sf_read]\<rparr>)))
    \<and> (\<forall>f w1 audio samplerate e. Phi4Model_load_file env url w = (Inr f, w1)
           \<and> sf_read env (file_bytes f) = Inr (audio, samplerate)
           \<and> processor model (audio_prompt model (map_of d ''prompt''))
                (Audios [(audio, samplerate)]) = Inl e \<longrightarrow>
         process_audio env model get_json req w
           = (Inr \<lparr>status = 500, body = [(''error'', ''Error processing audio: '' @ str_exc e)]\<rparr>,
              reclaim (next_fd w)
                (w1\<lparr>calls := calls w1 @ [Ev_sf_read,
                   Ev_processor (audio_prompt model (map_of d ''prompt''))]\<rparr>)))
    \<and> (\<forall>f w1 audio samplerate inp e. Phi4Model_load_file env url w = (Inr f, w1)
           \<and> sf_read env (file_bytes f) = Inr (audio, samplerate)
           \<and> processor model (audio_prompt model (map_of d ''prompt''))
                (Audios [(audio, samplerate)]) = Inr inp
           \<and> model_generate model inp 1000 = Inl e \<longrightarrow>
         process_audio env model get_json req w
           = (Inr \<lparr>status = 500, body = [(''error'', ''Error processing audio: '' @ str_exc e)]\<rparr>,
              reclaim (next_fd w)
                (w1\<lparr>calls := calls w1 @ [Ev_sf_read,
                   Ev_processor (audio_prompt model (map_of d ''prompt'')), Ev_generate 1000]\<rparr>)))
    \<and> (\<forall>f w1 audio samplerate inp out e. Phi4Model_load_file env url w = (Inr f, w1)
           \<and> sf_read env (file_bytes f) = Inr (audio, samplerate)
           \<and> processor model (audio_prompt model (map_of d ''prompt''))
                (Audios [(audio, samplerate)]) = Inr inp
           \<and> model_generate model inp 1000 = Inr out
           \<and> batch_decode model (slice_cols out (shape1 (input_ids inp))) True False = Inl e \<longrightarrow>
         process_audio env model get_json req w
           = (Inr \<lparr>status = 500, body = [(''error'', ''Error processing audio: '' @ str_exc e)]\<rparr>,
              reclaim (next_fd w)
                (w1\<lparr>calls := calls w1 @ [Ev_sf_read,
                   Ev_processor (audio_prompt model (map_of d ''prompt'')), Ev_generate 1000,
                   Ev_batch_decode True False]\<rparr>))))"
  apply (intro conjI impI allI; elim conjE)
           apply (rule route_image_failure, assumption, assumption, rule image_try_load_fails, assumption)
          apply (rule route_image_failure, assumption, assumption, rule image_try_decode_fails; assumption)
         apply (rule route_image_failure, assumption, assumption, rule image_try_processor_fails; assumption)
        apply (rule route_image_failure, assumption, assumption, rule image_try_generate_fails; assumption)
       apply (rule route_image_failure, assumption, assumption, rule image_try_batch_decode_fails; assumption)
      apply (rule route_audio_failure, assumption, assumption, rule audio_try_load_fails, assumption)
     apply (rule route_audio_failure, assumption, assumption, rule audio_try_decode_fails; assumption)
    apply (rule route_audio_failure, assumption, assumption, rule audio_try_processor_fails; assumption)
   apply (rule route_audio_failure, assumption, assumption, rule audio_try_generate_fails; assumption)
  apply (rule route_audio_failure, assumption, assumption, rule audio_try_batch_decode_fails; assumption)
  done

lemma sample_load_nothing:
  "Phi4Model_load_file (sample_env None) ''nothing.jpg'' world0
     = (Inl (FileNotFoundError ''Local file not found: /srv/app/nothing.jpg''), world0)"
  by (simp add: Phi4Model_load_file_def io_defs sample_defs Let_def)

lemma sample_load_photo:
  "Phi4Model_load_file (sample_env None) ''photo.jpg'' world0
     = (Inr (LocalFile 3 photo_bytes),
        \<lparr>open_files = [3], next_fd = 4, calls = [Ev_open ''/srv/app/photo.jpg'']\<rparr>)"
  by (simp add: Phi4Model_load_file_def io_defs sample_defs Let_def py_open_def)

lemma sample_photo_decodes:
  "Image_open (sample_env None) (file_bytes (LocalFile 3 photo_bytes)) = Inr [255, 0, 0]"
  "sf_read (sample_env None) (file_bytes (LocalFile 3 photo_bytes))
     = Inl (Raised ''LibsndfileError'' ''Format not recognised'')"
  by (simp_all add: sample_defs)

lemma oom_model_steps:
  "processor oom_model (image_prompt oom_model None) (Images [255, 0, 0])
     = Inr \<lparr>input_ids = \<lparr>shape0 = 1, shape1 = length (image_prompt oom_model None),
                           rows = [toy_tokens (image_prompt oom_model None)]\<rparr>,
            features = [255, 0, 0]\<rparr>"
  "model_generate oom_model inp 1000 = Inl (Raised ''OutOfMemoryError'' ''CUDA out of memory'')"
  by (simp_all add: oom_model_def Phi4Model_init_def toy_processor_def oom_generate_def)

theorem stage_failure_is_500_witness:
  "process_image (sample_env None) (toy_model ''A stop sign.'') flask_get_json
        (post_json (JObject [(''image_url'', ''nothing.jpg'')])) world0
     = (Inr \<lparr>status = 500,
             body = [(''error'', ''Error processing image: Local file not found: /srv/app/nothing.jpg'')]\<rparr>,
        world0)
   \<and> process_image (sample_env None) oom_model flask_get_json
        (post_json (JObject [(''image_url'', ''photo.jpg'')])) world0
     = (Inr \<lparr>status = 500, body = [(''error'', ''Error processing image: CUDA out of memory'')]\<rparr>,
        \<lparr>open_files = [], next_fd = 4,
         calls = [Ev_open ''/srv/app/photo.jpg'', Ev_Image_open,
                  Ev_processor ''<|user|><|image_1|>What is shown in this image?<|end|><|assistant|>'',
                  Ev_generate 1000, Ev_finalize 3]\<rparr>)
   \<and> process_audio (sample_env None) (toy_model ''A stop sign.'') flask_get_json
        (post_json (JObject [(''audio_url'', ''photo.jpg''), (''prompt'', ''Transcribe'')])) world0
     = (Inr \<lparr>status = 500, body = [(''error'', ''Error processing audio: Format not recognised'')]\<rparr>,
        \<lparr>open_files = [], next_fd = 4,
         calls = [Ev_open ''/srv/app/photo.jpg'', Ev_sf_read, Ev_finalize 3]\<rparr>)"
proof -
  let ?d1 = "[(''image_url'', ''nothing.jpg'')]"
  let ?d2 = "[(''image_url'', ''photo.jpg'')]"
  let ?d3 = "[(''audio_url'', ''photo.jpg''), (''prompt'', ''Transcribe'')]"
  let ?w1 = "\<lparr>open_files = [3], next_fd = 4, calls = [Ev_open ''/srv/app/photo.jpg'']\<rparr>"
  have g: "flask_get_json (post_json (JObject d)) = Inr (JObject d)" for d
    by (simp add: flask_get_json_def post_json_def)
  have 1: "process_image (sample_env None) (toy_model ''A stop sign.'') flask_get_json
        (post_json (JObject ?d1)) world0
     = (Inr \<lparr>status = 500, body = [(''error'', ''Error processing image: ''
            @ str_exc (FileNotFoundError ''Local file not found: /srv/app/nothing.jpg''))]\<rparr>,
        reclaim (next_fd world0) world0)"
    using stage_failure_is_500 [of flask_get_json "post_json (JObject ?d1)" ?d1 "''nothing.jpg''"
        "sample_env None" world0 "toy_model ''A stop sign.''"]
      g [of ?d1] sample_load_nothing
    by simp
  have 2: "process_image (sample_env None) oom_model flask_get_json
        (post_json (JObject ?d2)) world0
     = (Inr \<lparr>status = 500, body = [(''error'', ''Error processing image: ''
            @ str_exc (Raised ''OutOfMemoryError'' ''CUDA out of memory''))]\<rparr>,
        reclaim (next_fd world0)
          (?w1\<lparr>calls := calls ?w1 @ [Ev_Image_open,
             Ev_processor (image_prompt oom_model (map_of ?d2 ''prompt'')), Ev_generate 1000]\<rparr>))"
    using stage_failure_is_500 [of flask_get_json "post_json (JObject ?d2)" ?d2 "''photo.jpg''"
        "sample_env None" world0 oom_model]
      g [of ?d2] sample_load_photo sample_photo_decodes(1) oom_model_steps
    by simp
  have 3: "process_audio (sample_env None) (toy_model ''A stop sign.'') flask_get_json
        (post_json (JObject ?d3)) world0
     = (Inr \<lparr>status = 500, body = [(''error'', ''Error processing audio: ''
            @ str_exc (Raised ''LibsndfileError'' ''Format not recognised''))]\<rparr>,
        reclaim (next_fd world0) (?w1\<lparr>calls := calls ?w1 @ [Ev_sf_read]\<rparr>))"
    using stage_failure_is_500 [of flask_get_json "post_json (JObject ?d3)" ?d3 "''photo.jpg''"
        "sample_env None" world0 "toy_model ''A stop sign.''"]
      g [of ?d3] sample_load_photo sample_photo_decodes(2)
    by simp
  have p: "image_prompt oom_model None
      = ''<|user|><|image_1|>What is shown in this image?<|end|><|assistant|>''"
    by (simp add: image_prompt_def oom_model_def init_tokens py_or_simps)
  show ?thesis
    using 1 2 3 p by (simp add: reclaim_def world0_def)
qed

section \<open>The file handle\<close>

text \<open>
  When the reference is a local file and a later step fails, \<^verbatim>\<open>file_obj.close()\<close> is
  not reached: the descriptor that \<^verbatim>\<open>load_file\<close> opened is still open when
  \<^verbatim>\<open>Phi4Model.process_image\<close> raises.
\<close>

lemma failed_decode_keeps_handle:
  assumes "Phi4Model_load_file env url w = (Inr (LocalFile fd b), w1)"
    and "Image_open env b = Inl e"
  shows "Phi4Model_process_image env self url cp w
           = (Inl (Exception (''Error processing image: '' @ str_exc e)),
              w1\<lparr>calls := calls w1 @ [Ev_Image_open]\<rparr>)"
  using assms by (simp add: Phi4Model_process_image_def process_image_try_def io_defs Let_def)

text \<open>
  C3 on the sample. For \<^verbatim>\<open>notes.txt\<close>, a file that is no picture and no recording,
  \<^verbatim>\<open>Phi4Model.process_image\<close> and \<^verbatim>\<open>Phi4Model.process_audio\<close> raise with
  descriptor 3 open and without having called \<^verbatim>\<open>close\<close>; so does
  \<^verbatim>\<open>process_image\<close> for the picture when the generator fails. For the picture and a
  working model the method returns after \<^verbatim>\<open>close\<close>, with nothing open. On the failing
  request the descriptor stays open while the route handles the exception, and it is
  closed only when the interpreter reclaims the file object at the end of the route's
  \<^verbatim>\<open>except\<close> block: the code never releases it.
\<close>

theorem handle_left_open_on_failure:
  "Phi4Model_process_image (sample_env None) (toy_model ''A stop sign.'') ''notes.txt'' None world0
   = (Inl (Exception ''Error processing image: cannot identify image file''),
      \<lparr>open_files = [3], next_fd = 4, calls = [Ev_open ''/srv/app/notes.txt'', Ev_Image_open]\<rparr>)
   \<and> Phi4Model_process_audio (sample_env None) (toy_model ''A stop sign.'') ''notes.txt'' None world0
   = (Inl (Exception ''Error processing audio: Format not recognised''),
      \<lparr>open_files = [3], next_fd = 4, calls = [Ev_open ''/srv/app/notes.txt'', Ev_sf_read]\<rparr>)
   \<and> Phi4Model_process_image (sample_env None) oom_model ''photo.jpg'' None world0
   = (Inl (Exception ''Error processing image: CUDA out of memory''),
      \<lparr>open_files = [3], next_fd = 4,
       calls = [Ev_open ''/srv/app/photo.jpg'', Ev_Image_open,
                Ev_processor ''<|user|><|image_1|>What is shown in this image?<|end|><|assistant|>'',
                Ev_generate 1000]\<rparr>)
   \<and> Phi4Model_process_image (sample_env None) (toy_model ''A stop sign.'') ''photo.jpg'' None world0
   = (Inr ''A stop sign.'',
      \<lparr>open_files = [], next_fd = 4,
       calls = [Ev_open ''/srv/app/photo.jpg'', Ev_Image_open,
                Ev_processor ''<|user|><|image_1|>What is shown in this image?<|end|><|assistant|>'',
                Ev_generate 1000, Ev_batch_decode True False, Ev_close 3]\<rparr>)
   \<and> process_image (sample_env None) (toy_model ''A stop sign.'') flask_get_json
        (post_json (JObject [(''image_url'', ''notes.txt'')])) world0
   = (Inr \<lparr>status = 500,
           body = [(''error'', ''Error processing image: cannot identify image file'')]\<rparr>,
      \<lparr>open_files = [], next_fd = 4,
       calls = [Ev_open ''/srv/app/notes.txt'', Ev_Image_open, Ev_finalize 3]\<rparr>)"
  by code_simp

section \<open>Generation and decoding\<close>

lemma image_success:
  assumes "Phi4Model_process_image env self url cp w = (Inr text, w')"
  shows "\<exists>file_obj w1 image inp out rest.
           Phi4Model_load_file env url w = (Inr file_obj, w1) \<and>
           Image_open env (file_bytes file_obj) = Inr image \<and>
           processor self (image_prompt self cp) (Images image) = Inr inp \<and>
           model_generate self inp 1000 = Inr out \<and>
           batch_decode self
             \<lparr>shape0 = shape0 out, shape1 = shape1 out - shape1 (input_ids inp),
              rows = map (drop (shape1 (input_ids inp))) (rows out)\<rparr> True False
             = Inr (text # rest)"
proof -
  from assms have "process_image_try env self url cp w = (Inr text, w')"
    unfolding Phi4Model_process_image_def by (rule try_raise_Inr)
  then show ?thesis
    unfolding process_image_try_def Let_def
    by (elim bind_io_Inr)
      (auto simp: slice_cols_def return_io_def dest!: call_io_Inr lift_io_Inr index0_Inr)
qed

lemma audio_success:
  assumes "Phi4Model_process_audio env self url cp w = (Inr text, w')"
  shows "\<exists>file_obj w1 audio samplerate inp out rest.
           Phi4Model_load_file env url w = (Inr file_obj, w1) \<and>
           sf_read env (file_bytes file_obj) = Inr (audio, samplerate) \<and>
           processor self (audio_prompt self cp) (Audios [(audio, samplerate)]) = Inr inp \<and>
           model_generate self inp 1000 = Inr out \<and>
           batch_decode self
             \<lparr>shape0 = shape0 out, shape1 = shape1 out - shape1 (input_ids inp),
              rows = map (drop (shape1 (input_ids inp))) (rows out)\<rparr> True False
             = Inr (text # rest)"
proof -
  from assms have "process_audio_try env self url cp w = (Inr text, w')"
    unfolding Phi4Model_process_audio_def by (rule try_raise_Inr)
  then show ?thesis
    unfolding process_audio_try_def Let_def
    apply (elim bind_io_Inr)
    apply (auto simp: slice_cols_def return_io_def split: prod.splits
        dest!: call_io_Inr lift_io_Inr index0_Inr elim!: bind_io_Inr)
    done
qed

lemma sample_image_run:
  "Phi4Model_process_image (sample_env None) (toy_model ''A stop sign.'') ''photo.jpg'' None world0
     = (Inr ''A stop sign.'',
        \<lparr>open_files = [], next_fd = 4,
         calls = [Ev_open ''/srv/app/photo.jpg'', Ev_Image_open,
                  Ev_processor ''<|user|><|image_1|>What is shown in this image?<|end|><|assistant|>'',
                  Ev_generate 1000, Ev_batch_decode True False, Ev_close 3]\<rparr>)"
  by code_simp

lemma sample_audio_run:
  "Phi4Model_process_audio (sample_env None) (toy_model ''Hello.<sep>Bonjour.'') ''speech.flac''
       (Some ''Transcribe'') world0
     = (Inr ''Hello.<sep>Bonjour.'',
        \<lparr>open_files = [], next_fd = 4,
         calls = [Ev_open ''/srv/app/speech.flac'', Ev_sf_read,
                  Ev_processor ''<|user|><|audio_1|>Transcribe<|end|><|assistant|>'',
                  Ev_generate 1000, Ev_batch_decode True False, Ev_close 3]\<rparr>)"
  by code_simp

text \<open>
  C1, as the code has it. Whenever \<^verbatim>\<open>process_image\<close> or \<^verbatim>\<open>process_audio\<close> returns
  a text, the processor made the inputs from the assembled prompt and the decoded media,
  the model generated at most 1000 new tokens from them, exactly the first
  \<^verbatim>\<open>inputs["input_ids"].shape[1]\<close> positions of every generated row were dropped, and
  the text is the first string the decoder gives for what is left, asked with
  \<^verbatim>\<open>skip_special_tokens=True\<close>. The echoed input has no part in the text; whether the
  text begins with the prompt is up to what the model generates after the echo.
\<close>

theorem echo_stripped_before_decoding:
  "(Phi4Model_process_image env self url cp w = (Inr text, w') \<longrightarrow>
      (\<exists>file_obj w1 image inp out rest.
           Phi4Model_load_file env url w = (Inr file_obj, w1) \<and>
           Image_open env (file_bytes file_obj) = Inr image \<and>
           processor self (image_prompt self cp) (Images image) = Inr inp \<and>
           model_generate self inp 1000 = Inr out \<and>
           batch_decode self
             \<lparr>shape0 = shape0 out, shape1 = shape1 out - shape1 (input_ids inp),
              rows = map (drop (shape1 (input_ids inp))) (rows out)\<rparr> True False
             = Inr (text # rest)))
   \<and> (Phi4Model_process_audio env self url cp w = (Inr text, w') \<longrightarrow>
      (\<exists>file_obj w1 audio samplerate inp out rest.
           Phi4Model_load_file env url w = (Inr file_obj, w1) \<and>
           sf_read env (file_bytes file_obj) = Inr (audio, samplerate) \<and>
           processor self (audio_prompt self cp) (Audios [(audio, samplerate)]) = Inr inp \<and>
           model_generate self inp 1000 = Inr out \<and>
           batch_decode self
             \<lparr>shape0 = shape0 out, shape1 = shape1 out - shape1 (input_ids inp),
              rows = map (drop (shape1 (input_ids inp))) (rows out)\<rparr> True False
             = Inr (text # rest)))"
  by (intro conjI impI) (erule image_success, erule audio_success)

theorem echo_stripped_before_decoding_witness:
  "fst (Phi4Model_process_image (sample_env None) (toy_model ''A stop sign.'') ''photo.jpg'' None world0)
     = Inr ''A stop sign.''
   \<and> (\<exists>inp out rest.
        processor (toy_model ''A stop sign.'') (image_prompt (toy_model ''A stop sign.'') None)
          (Images [255, 0, 0]) = Inr inp \<and>
        model_generate (toy_model ''A stop sign.'') inp 1000 = Inr out \<and>
        batch_decode (toy_model ''A stop sign.'')
          \<lparr>shape0 = shape0 out, shape1 = shape1 out - shape1 (input_ids inp),
           rows = map (drop (shape1 (input_ids inp))) (rows out)\<rparr> True False
          = Inr (''A stop sign.'' # rest))
   \<and> fst (Phi4Model_process_audio (sample_env None) (toy_model ''Hello.<sep>Bonjour.'')
        ''speech.flac'' (Some ''Transcribe'') world0) = Inr ''Hello.<sep>Bonjour.''
   \<and> (\<exists>inp out rest.
        processor (toy_model ''Hello.<sep>Bonjour.'')
          (audio_prompt (toy_model ''Hello.<sep>Bonjour.'') (Some ''Transcribe''))
          (Audios [([0, 1, - 1], 16000)]) = Inr inp \<and>
        model_generate (toy_model ''Hello.<sep>Bonjour.'') inp 1000 = Inr out \<and>
        batch_decode (toy_model ''Hello.<sep>Bonjour.'')
          \<lparr>shape0 = shape0 out, shape1 = shape1 out - shape1 (input_ids inp),
           rows = map (drop (shape1 (input_ids inp))) (rows out)\<rparr> True False
          = Inr (''Hello.<sep>Bonjour.'' # rest))"
  using echo_stripped_before_decoding [of "sample_env None" "toy_model ''A stop sign.''"
      "''photo.jpg''" None world0 "''A stop sign.''"]
    echo_stripped_before_decoding [of "sample_env None" "toy_model ''Hello.<sep>Bonjour.''"
      "''speech.flac''" "Some ''Transcribe''" world0 "''Hello.<sep>Bonjour.''"]
    sample_image_run sample_audio_run
  apply (simp add: sample_Image_open_def sample_sf_read_def sample_env_def photo_bytes_def
      speech_bytes_def)
  apply (simp add: Phi4Model_load_file_def io_defs sample_defs py_open_def)
  done

text \<open>
  C1 as it is written fails for a model that, after the echo, spells its prompt once
  more in ordinary tokens: the slice removes the echo, the decoder leaves out the
  special token, and the text that comes back is the assembled prompt.
\<close>

theorem echo_stripped_before_decoding_counterexample:
  "(case fst (Phi4Model_process_image (sample_env None)
              (toy_model ''<|user|><|image_1|>What is shown in this image?<|end|><|assistant|>'')
              ''photo.jpg'' None world0) of
      Inl e \<Rightarrow> False
    | Inr text \<Rightarrow>
        prefix (image_prompt
                 (toy_model ''<|user|><|image_1|>What is shown in this image?<|end|><|assistant|>'')
                 None) text)"
  by code_simp

section \<open>Splitting an audio response\<close>

lemma split_without_sep:
  "\<not> py_in sep s \<Longrightarrow> py_split_from sep cur s = [cur @ s]"
  by (induction s arbitrary: cur) auto

text \<open>No occurrence of the separator starts before another one and runs into it.\<close>

lemma sep_no_straddle:
  assumes "x \<noteq> []" and "prefix ''<sep>'' (x @ ''<sep>'' @ b)"
  shows "prefix ''<sep>'' x"
proof -
  consider (1) c1 where "x = [c1]"
    | (2) c1 c2 where "x = [c1, c2]"
    | (3) c1 c2 c3 where "x = [c1, c2, c3]"
    | (4) c1 c2 c3 c4 where "x = [c1, c2, c3, c4]"
    | (5) c1 c2 c3 c4 c5 r where "x = c1 # c2 # c3 # c4 # c5 # r"
    using assms(1)
    by (metis list.exhaust)
  then show ?thesis
    using assms(2) by cases auto
qed

lemma split_at_first:
  assumes "sep \<noteq> []"
    and ns: "\<And>x b. x \<noteq> [] \<Longrightarrow> prefix sep (x @ sep @ b) \<Longrightarrow> prefix sep x"
  shows "\<not> py_in sep a \<Longrightarrow>
         py_split_from sep cur (a @ sep @ b) = (cur @ a) # py_split_from sep [] b"
proof (induction a arbitrary: cur)
  case Nil
  from assms(1) obtain s ss where "sep = s # ss" by (cases sep) auto
  then show ?case by simp
next
  case (Cons c cs)
  from Cons.prems have np: "\<not> prefix sep (c # cs)" and ni: "\<not> py_in sep cs"
    by simp_all
  from np ns [of "c # cs" b] have "\<not> prefix sep (c # (cs @ sep @ b))"
    by auto
  then have "py_split_from sep cur (c # (cs @ sep @ b))
             = py_split_from sep (cur @ [c]) (cs @ sep @ b)"
    by simp
  with Cons.IH [OF ni, of "cur @ [c]"] show ?case by simp
qed

lemma split_one_sep:
  "\<not> py_in ''<sep>'' a \<Longrightarrow>
   py_split_from ''<sep>'' cur (a @ ''<sep>'' @ b) = (cur @ a) # py_split_from ''<sep>'' [] b"
  by (rule split_at_first) (simp, erule (1) sep_no_straddle)

text \<open>
  C9, as the code has it. An audio response with exactly one \<^verbatim>\<open><sep>\<close>, that is
  \<open>a\<close>, the separator, \<open>b\<close>, with no separator in \<open>a\<close> or in \<open>b\<close>, is split by
  the front-end into exactly the two segments \<open>a\<close> and \<open>b\<close>, which it shows trimmed
  by \<^verbatim>\<open>str.strip\<close> as transcript and translation. A response without \<^verbatim>\<open><sep>\<close> is
  one segment, shown as it is.
\<close>

theorem split_at_one_separator:
  assumes "\<not> py_in ''<sep>'' a" and "\<not> py_in ''<sep>'' b" and "\<not> py_in ''<sep>'' r"
  shows "py_in ''<sep>'' (a @ ''<sep>'' @ b)
       \<and> py_split (a @ ''<sep>'' @ b) ''<sep>'' = Inr [a, b]
       \<and> audio_interface_results strip (a @ ''<sep>'' @ b)
           = Inr [''#### Original Transcript'', strip a, ''#### French Translation'', strip b]
       \<and> py_split r ''<sep>'' = Inr [r]
       \<and> audio_interface_results strip r = Inr [r]"
proof -
  have 1: "py_in ''<sep>'' (a @ ''<sep>'' @ b)" by (rule py_in_append)
  have 2: "py_split (a @ ''<sep>'' @ b) ''<sep>'' = Inr [a, b]"
    using split_one_sep [OF assms(1), of "[]" b] split_without_sep [OF assms(2), of "[]"]
    by (simp add: py_split_def)
  have 3: "py_split r ''<sep>'' = Inr [r]"
    using split_without_sep [OF assms(3), of "[]"] by (simp add: py_split_def)
  show ?thesis
    using 1 2 3 assms(3) by (simp add: audio_interface_results_def)
qed

theorem split_at_one_separator_witness:
  "\<not> py_in ''<sep>'' ''Hello. '' \<and> \<not> py_in ''<sep>'' '' Bonjour.'' \<and> \<not> py_in ''<sep>'' ''Hello.''
   \<and> audio_interface_results ascii_strip ''Hello. <sep> Bonjour.''
       = Inr [''#### Original Transcript'', ''Hello.'', ''#### French Translation'', ''Bonjour.'']
   \<and> audio_interface_results ascii_strip ''Hello.'' = Inr [''Hello.'']"
proof -
  have h: "\<not> py_in ''<sep>'' ''Hello. ''" "\<not> py_in ''<sep>'' '' Bonjour.''"
    "\<not> py_in ''<sep>'' ''Hello.''"
    by code_simp+
  have s: "ascii_strip ''Hello. '' = ''Hello.''" "ascii_strip '' Bonjour.'' = ''Bonjour.''"
    by code_simp+
  show ?thesis
    using split_at_one_separator [OF h, of ascii_strip] h s by simp
qed

text \<open>
  C9 as it is written fails twice. A response with two separators is cut into three
  segments, and the front-end, which unpacks two, stops with \<^verbatim>\<open>ValueError\<close>. A
  response that is the separator alone is cut into two segments that are empty.
\<close>

theorem split_at_one_separator_counterexample:
  "py_in ''<sep>'' ''a<sep>b<sep>c''
   \<and> py_split ''a<sep>b<sep>c'' ''<sep>'' = Inr [''a'', ''b'', ''c'']
   \<and> audio_interface_results ascii_strip ''a<sep>b<sep>c''
       = Inl (ValueError ''too many values to unpack (expected 2)'')
   \<and> py_in ''<sep>'' ''<sep>''
   \<and> py_split ''<sep>'' ''<sep>'' = Inr [[], []]
   \<and> audio_interface_results ascii_strip ''<sep>''
       = Inr [''#### Original Transcript'', [], ''#### French Translation'', []]"
  by code_simp

end
